theory Spec2Isabelle
  imports Complex_Main
begin

section \<open>JavaScript numbers\<close>

text \<open>
  A JavaScript \<^verbatim>\<open>number\<close> is modelled as a finite real or one of the three special
  values. Arithmetic on the special values follows IEEE 754; the operators of this section
  are exact on finite values: rounding, overflow to an infinity and the sign of zero are not
  modelled in them (zero is the positive zero, so a positive number divided by zero is
  \<open>PInf\<close>). The geometry kernel rounds the result of every operation to a double, with
  the operations of its own section.
\<close>

datatype jsnum = Fin real | PInf | NInf | NaN

instantiation jsnum :: "{plus, minus, uminus, times, inverse, abs, ord}"
begin

fun plus_jsnum :: "jsnum \<Rightarrow> jsnum \<Rightarrow> jsnum" where
  "plus_jsnum NaN _ = NaN"
| "plus_jsnum _ NaN = NaN"
| "plus_jsnum (Fin a) (Fin b) = Fin (a + b)"
| "plus_jsnum PInf NInf = NaN"
| "plus_jsnum NInf PInf = NaN"
| "plus_jsnum PInf _ = PInf"
| "plus_jsnum _ PInf = PInf"
| "plus_jsnum NInf _ = NInf"
| "plus_jsnum _ NInf = NInf"

fun uminus_jsnum :: "jsnum \<Rightarrow> jsnum" where
  "uminus_jsnum (Fin a) = Fin (- a)"
| "uminus_jsnum PInf = NInf"
| "uminus_jsnum NInf = PInf"
| "uminus_jsnum NaN = NaN"

definition minus_jsnum :: "jsnum \<Rightarrow> jsnum \<Rightarrow> jsnum" where
  "minus_jsnum a b = a + (- b)"

fun times_jsnum :: "jsnum \<Rightarrow> jsnum \<Rightarrow> jsnum" where
  "times_jsnum NaN _ = NaN"
| "times_jsnum _ NaN = NaN"
| "times_jsnum (Fin a) (Fin b) = Fin (a * b)"
| "times_jsnum (Fin a) PInf = (if a = 0 then NaN else if 0 < a then PInf else NInf)"
| "times_jsnum (Fin a) NInf = (if a = 0 then NaN else if 0 < a then NInf else PInf)"
| "times_jsnum PInf (Fin b) = (if b = 0 then NaN else if 0 < b then PInf else NInf)"
| "times_jsnum NInf (Fin b) = (if b = 0 then NaN else if 0 < b then NInf else PInf)"
| "times_jsnum PInf PInf = PInf"
| "times_jsnum NInf NInf = PInf"
| "times_jsnum PInf NInf = NInf"
| "times_jsnum NInf PInf = NInf"

fun divide_jsnum :: "jsnum \<Rightarrow> jsnum \<Rightarrow> jsnum" where
  "divide_jsnum NaN _ = NaN"
| "divide_jsnum _ NaN = NaN"
| "divide_jsnum (Fin a) (Fin b) =
     (if b = 0 then (if a = 0 then NaN else if 0 < a then PInf else NInf) else Fin (a / b))"
| "divide_jsnum (Fin a) _ = Fin 0"
| "divide_jsnum PInf (Fin b) = (if 0 \<le> b then PInf else NInf)"
| "divide_jsnum NInf (Fin b) = (if 0 \<le> b then NInf else PInf)"
| "divide_jsnum _ _ = NaN"

definition inverse_jsnum :: "jsnum \<Rightarrow> jsnum" where
  "inverse_jsnum a = divide (Fin 1) a"

fun abs_jsnum :: "jsnum \<Rightarrow> jsnum" where
  "abs_jsnum (Fin a) = Fin \<bar>a\<bar>"
| "abs_jsnum PInf = PInf"
| "abs_jsnum NInf = PInf"
| "abs_jsnum NaN = NaN"

text \<open>The comparisons \<^verbatim>\<open><\<close> and \<^verbatim>\<open><=\<close>: false as soon as one side is NaN.\<close>

fun less_jsnum :: "jsnum \<Rightarrow> jsnum \<Rightarrow> bool" where
  "less_jsnum NaN _ = False"
| "less_jsnum _ NaN = False"
| "less_jsnum (Fin a) (Fin b) = (a < b)"
| "less_jsnum _ NInf = False"
| "less_jsnum PInf _ = False"
| "less_jsnum _ _ = True"

fun less_eq_jsnum :: "jsnum \<Rightarrow> jsnum \<Rightarrow> bool" where
  "less_eq_jsnum NaN _ = False"
| "less_eq_jsnum _ NaN = False"
| "less_eq_jsnum (Fin a) (Fin b) = (a \<le> b)"
| "less_eq_jsnum NInf _ = True"
| "less_eq_jsnum _ PInf = True"
| "less_eq_jsnum _ _ = False"

instance ..

end

text \<open>\<^verbatim>\<open>isFinite\<close> and the truthiness of a number.\<close>

fun isFinite :: "jsnum \<Rightarrow> bool" where
  "isFinite (Fin _) = True"
| "isFinite _ = False"

fun truthy :: "jsnum \<Rightarrow> bool" where
  "truthy (Fin a) = (a \<noteq> 0)"
| "truthy NaN = False"
| "truthy _ = True"

text \<open>\<^verbatim>\<open>Math.sqrt\<close>, \<^verbatim>\<open>Math.pow(v, 2)\<close>, and the variadic \<^verbatim>\<open>Math.min\<close>, which
  returns NaN as soon as one argument is NaN.\<close>

fun math_sqrt :: "jsnum \<Rightarrow> jsnum" where
  "math_sqrt (Fin a) = (if a < 0 then NaN else Fin (sqrt a))"
| "math_sqrt PInf = PInf"
| "math_sqrt _ = NaN"

definition math_pow2 :: "jsnum \<Rightarrow> jsnum" where
  "math_pow2 v = v * v"

fun math_min :: "jsnum list \<Rightarrow> jsnum" where
  "math_min [] = PInf"
| "math_min (v # vs) =
     (let m = math_min vs in
      if v = NaN \<or> m = NaN then NaN else if v < m then v else m)"


text \<open>A value that may be \<^verbatim>\<open>undefined\<close>, read as a number: \<^verbatim>\<open>undefined\<close> is NaN.\<close>

fun to_num :: "jsnum option \<Rightarrow> jsnum" where
  "to_num None = NaN"
| "to_num (Some v) = v"

section \<open>Data model\<close>

record point =
  px :: jsnum
  py :: jsnum

text \<open>
  \<^verbatim>\<open>Entity\<close> is an object with the two mandatory keys \<^verbatim>\<open>id\<close> and \<^verbatim>\<open>type\<close> and any
  other key (\<^verbatim>\<open>[key: string]: any\<close>). The record has one optional field per key that the
  functions below read or write; \<open>None\<close> is an absent key. The block authoring code deletes
  \<^verbatim>\<open>id\<close>, therefore \<open>e_id\<close> is optional too. An absent \<^verbatim>\<open>selected\<close> is falsy.
\<close>

record entity =
  e_id :: "string option"
  e_type :: "string option"
  e_selected :: "bool option"
  e_start :: "point option"
  e_end :: "point option"
  e_thickness :: "jsnum option"
  e_center :: "point option"
  e_radius :: "jsnum option"
  e_width :: "jsnum option"
  e_height :: "jsnum option"
  e_points :: "point list option"
  e_closed :: "bool option"
  e_p1 :: "point option"
  e_p2 :: "point option"
  e_p3 :: "point option"
  e_x :: "jsnum option"
  e_y :: "jsnum option"
  e_rotation :: "jsnum option"
  e_content :: "string option"
  e_fontSize :: "jsnum option"
  e_blockName :: "string option"
  e_insertPoint :: "point option"
  e_scale :: "jsnum option"
  e_text :: "string option"
  e_rows :: "jsnum option"
  e_cols :: "jsnum option"
  e_rowHeight :: "jsnum option"
  e_colWidth :: "jsnum option"
  e_size :: "jsnum option"

definition no_entity :: entity where
  "no_entity = \<lparr> e_id = None, e_type = None, e_selected = None, e_start = None,
     e_end = None, e_thickness = None, e_center = None, e_radius = None, e_width = None,
     e_height = None, e_points = None, e_closed = None, e_p1 = None, e_p2 = None,
     e_p3 = None, e_x = None, e_y = None, e_rotation = None, e_content = None,
     e_fontSize = None, e_blockName = None, e_insertPoint = None, e_scale = None,
     e_text = None, e_rows = None, e_cols = None, e_rowHeight = None, e_colWidth = None,
     e_size = None \<rparr>"

definition is_selected :: "entity \<Rightarrow> bool" where
  "is_selected e = (e_selected e = Some True)"

definition has_type :: "entity \<Rightarrow> string \<Rightarrow> bool" where
  "has_type e t = (e_type e = Some t)"

record block_def =
  b_name :: string
  b_entities :: "entity list"
  b_basePoint :: point

record view_state =
  v_x :: jsnum
  v_y :: jsnum
  v_zoom :: jsnum

datatype tool = SELECT | WALL | DOOR | WINDOW | TEXT | CIRCLE | RECT | DIMENSION
  | POLYLINE | ARC | INSERT_BLOCK | LEADER | TABLE | CENTERMARK

text \<open>The React state of \<^verbatim>\<open>App\<close> that the canvas handlers read and write.\<close>

record app_state =
  entities :: "entity list"
  blockDefs :: "string \<rightharpoonup> block_def"
  activeBlockName :: "string option"
  view :: view_state
  activeTool :: tool
  isDragging :: bool
  dragStart :: "point option"
  drawingStart :: "point option"
  tempPoints :: "point list"
  mousePos :: point

section \<open>Helper functions\<close>

definition dist :: "point \<Rightarrow> point \<Rightarrow> jsnum" where
  "dist p1 p2 = math_sqrt (math_pow2 (px p2 - px p1) + math_pow2 (py p2 - py p1))"

definition screenToWorld :: "point \<Rightarrow> view_state \<Rightarrow> point" where
  "screenToWorld screen v =
     \<lparr> px = (px screen - v_x v) / v_zoom v, py = (py screen - v_y v) / v_zoom v \<rparr>"


section \<open>Tool state machine\<close>

text \<open>
  What a handler receives from outside of the state: the mouse event, the bounding rectangle
  of the canvas (\<^verbatim>\<open>canvasRef.current.getBoundingClientRect()\<close>), the string that
  \<^verbatim>\<open>prompt\<close> returns should the handler call it (\<open>None\<close> is \<^verbatim>\<open>null\<close>, the dialog
  cancelled), and the string that \<^verbatim>\<open>generateId()\<close> returns should the handler call it.
\<close>

record mouse_event =
  clientX :: jsnum
  clientY :: jsnum
  button :: nat
  ctrlKey :: bool

record dom_rect =
  r_left :: jsnum
  r_top :: jsnum
  r_width :: jsnum
  r_height :: jsnum

definition add_entity :: "entity \<Rightarrow> app_state \<Rightarrow> app_state" where
  "add_entity e st = st\<lparr>entities := entities st @ [e]\<rparr>"

subsection \<open>parseInt and the TABLE prompt\<close>

text \<open>
  \<^verbatim>\<open>parseInt(s)\<close> with no radix: leading white space is skipped, then an optional sign,
  then the prefix \<^verbatim>\<open>0x\<close> or \<^verbatim>\<open>0X\<close> selects radix 16, then the longest run of digits of
  the radix is read; no digit gives NaN. Strings are ASCII here, so the white space is the
  six ASCII white space characters.
\<close>

definition is_space :: "char \<Rightarrow> bool" where
  "is_space c = (c \<in> {CHR '' '', CHR 0x09, CHR 0x0A, CHR 0x0B, CHR 0x0C, CHR 0x0D})"

definition digit_val :: "char \<Rightarrow> nat option" where
  "digit_val c =
     (let n = (of_char c :: nat) in
      if 48 \<le> n \<and> n \<le> 57 then Some (n - 48)
      else if 97 \<le> n \<and> n \<le> 122 then Some (n - 87)
      else if 65 \<le> n \<and> n \<le> 90 then Some (n - 55)
      else None)"

fun read_digits :: "nat \<Rightarrow> string \<Rightarrow> nat list" where
  "read_digits R [] = []"
| "read_digits R (c # cs) =
     (case digit_val c of
        Some d \<Rightarrow> (if d < R then d # read_digits R cs else [])
      | None \<Rightarrow> [])"

definition digits_value :: "nat \<Rightarrow> nat list \<Rightarrow> nat" where
  "digits_value R ds = foldl (\<lambda>acc d. acc * R + d) 0 ds"

definition parseInt :: "string \<Rightarrow> jsnum" where
  "parseInt s =
     (let s1 = dropWhile is_space s;
          neg = (s1 \<noteq> [] \<and> hd s1 = CHR ''-'');
          s2 = (if s1 \<noteq> [] \<and> (hd s1 = CHR ''-'' \<or> hd s1 = CHR ''+'') then tl s1 else s1);
          hex = (take 2 s2 = ''0x'' \<or> take 2 s2 = ''0X'');
          R = (if hex then 16 else 10);
          s3 = (if hex then drop 2 s2 else s2);
          ds = read_digits R s3
      in if ds = [] then NaN
         else Fin ((if neg then - 1 else 1) * real (digits_value R ds)))"

text \<open>\<^verbatim>\<open>s.split(',')\<close>: the pieces between the commas; one piece when there is no comma.\<close>

fun split_comma :: "string \<Rightarrow> string list" where
  "split_comma [] = [[]]"
| "split_comma (c # cs) =
     (if c = CHR '','' then [] # split_comma cs
      else (case split_comma cs of
              [] \<Rightarrow> [[c]]
            | w # ws \<Rightarrow> (c # w) # ws))"

text \<open>
  \<^verbatim>\<open>const [r, c] = spec.split(',').map(n => parseInt(n))\<close>: a missing second element is
  \<^verbatim>\<open>undefined\<close>.
\<close>

definition table_spec :: "string \<Rightarrow> jsnum option \<times> jsnum option" where
  "table_spec spec =
     (let ns = map parseInt (split_comma spec)
      in (if 0 < length ns then Some (ns ! 0) else None,
          if 1 < length ns then Some (ns ! 1) else None))"

subsection \<open>handleMouseDown\<close>

definition new_arc :: "string \<Rightarrow> point \<Rightarrow> point \<Rightarrow> point \<Rightarrow> entity" where
  "new_arc i a b c = no_entity\<lparr> e_id := Some i, e_type := Some ''arc'',
     e_p1 := Some a, e_p2 := Some b, e_p3 := Some c \<rparr>"

definition new_insert :: "string \<Rightarrow> string \<Rightarrow> point \<Rightarrow> entity" where
  "new_insert i name p = no_entity\<lparr> e_id := Some i, e_type := Some ''insert'',
     e_blockName := Some name, e_insertPoint := Some p, e_scale := Some (Fin 1),
     e_rotation := Some (Fin 0) \<rparr>"

definition new_centermark :: "string \<Rightarrow> point \<Rightarrow> jsnum \<Rightarrow> entity" where
  "new_centermark i c s = no_entity\<lparr> e_id := Some i, e_type := Some ''centermark'',
     e_center := Some c, e_size := Some s \<rparr>"

definition new_table :: "string \<Rightarrow> point \<Rightarrow> jsnum \<Rightarrow> jsnum \<Rightarrow> entity" where
  "new_table i p r c = no_entity\<lparr> e_id := Some i, e_type := Some ''table'',
     e_x := Some (px p), e_y := Some (py p), e_rows := Some r, e_cols := Some c,
     e_rowHeight := Some (Fin 20), e_colWidth := Some (Fin 60) \<rparr>"

definition new_text :: "string \<Rightarrow> point \<Rightarrow> string \<Rightarrow> entity" where
  "new_text i p content = no_entity\<lparr> e_id := Some i, e_type := Some ''text'',
     e_x := Some (px p), e_y := Some (py p), e_content := Some content,
     e_fontSize := Some (Fin 12) \<rparr>"

definition new_door :: "string \<Rightarrow> point \<Rightarrow> entity" where
  "new_door i p = no_entity\<lparr> e_id := Some i, e_type := Some ''door'',
     e_x := Some (px p), e_y := Some (py p), e_width := Some (Fin 40),
     e_rotation := Some (Fin 0) \<rparr>"

text \<open>
  The CENTERMARK branch: the centre and the size of the mark for the entity found. An arc
  found without one of its three points makes the handler throw before any state is set,
  which leaves the state as it was, like \<open>None\<close> here.
\<close>

definition centermark_of :: "entity \<Rightarrow> (point \<times> jsnum) option" where
  "centermark_of hit =
     (if has_type hit ''circle'' then
        (case e_center hit of
           None \<Rightarrow> None
         | Some c \<Rightarrow> Some (c, to_num (e_radius hit) * Fin (12 / 10)))
      else if has_type hit ''arc'' then
        (case (e_p1 hit, e_p2 hit, e_p3 hit) of
           (Some a1, Some a2, Some a3) \<Rightarrow>
             (let x1 = px a1; y1 = py a1; x2 = px a2; y2 = py a2; x3 = px a3; y3 = py a3;
                  D = Fin 2 * (x1 * (y2 - y3) + x2 * (y3 - y1) + x3 * (y1 - y2))
              in if Fin (1 / 1000) < \<bar>D\<bar> then
                   (let Ux = ((x1 * x1 + y1 * y1) * (y2 - y3) + (x2 * x2 + y2 * y2) * (y3 - y1)
                              + (x3 * x3 + y3 * y3) * (y1 - y2)) / D;
                        Uy = ((x1 * x1 + y1 * y1) * (x3 - x2) + (x2 * x2 + y2 * y2) * (x1 - x3)
                              + (x3 * x3 + y3 * y3) * (x2 - x1)) / D
                    in Some (\<lparr> px = Ux, py = Uy \<rparr>,
                             math_sqrt (math_pow2 (x1 - Ux) + math_pow2 (y1 - Uy))
                               * Fin (12 / 10)))
                 else None)
         | _ \<Rightarrow> None)
      else None)"

text \<open>
  The handler. In the SELECT branch the entity struck, \<^verbatim>\<open>entities.find(...)\<close>, is the
  parameter \<open>hit\<close>: the per-variant hit test is not part of this development.
\<close>

definition handleMouseDown ::
  "mouse_event \<Rightarrow> dom_rect \<Rightarrow> entity option \<Rightarrow> string option \<Rightarrow> string \<Rightarrow> app_state \<Rightarrow> app_state" where
  "handleMouseDown ev rect hit reply newId st =
     (let mx = clientX ev - r_left rect;
          my = clientY ev - r_top rect;
          worldPos = screenToWorld \<lparr> px = mx, py = my \<rparr> (view st)
      in
      if button ev = 1 \<or> activeTool st = SELECT then
        (let st1 = st\<lparr> isDragging := True, dragStart := Some \<lparr> px = mx, py = my \<rparr> \<rparr>
         in if activeTool st = SELECT then
              (if ctrlKey ev then
                 (case hit of
                    None \<Rightarrow> st1
                  | Some h \<Rightarrow> st1\<lparr> entities := map (\<lambda>en. if e_id en = e_id h
                        then en\<lparr> e_selected := Some (\<not> is_selected en) \<rparr> else en) (entities st) \<rparr>)
               else st1\<lparr> entities := map (\<lambda>en. en\<lparr> e_selected :=
                        Some (case hit of None \<Rightarrow> False | Some h \<Rightarrow> e_id en = e_id h) \<rparr>)
                      (entities st) \<rparr>)
            else st1)
      else if activeTool st = POLYLINE then
        st\<lparr> tempPoints := tempPoints st @ [worldPos] \<rparr>
      else if activeTool st = ARC then
        (let nextPoints = tempPoints st @ [worldPos]
         in if length nextPoints = 2 then
              (add_entity (new_arc newId (nextPoints ! 0) (nextPoints ! 1) worldPos) st)
                \<lparr> tempPoints := [] \<rparr>
            else st\<lparr> tempPoints := nextPoints \<rparr>)
      else if activeTool st = INSERT_BLOCK then
        (case activeBlockName st of
           None \<Rightarrow> st
         | Some name \<Rightarrow> if name = [] then st else add_entity (new_insert newId name worldPos) st)
      else if activeTool st = CENTERMARK then
        (case find (\<lambda>ent. (has_type ent ''circle'' \<or> has_type ent ''arc'') \<and> \<not> is_selected ent)
                (entities st) of
           None \<Rightarrow> st
         | Some h \<Rightarrow>
             (case centermark_of h of
                None \<Rightarrow> st
              | Some (c, s) \<Rightarrow> add_entity (new_centermark newId c s) st))
      else if activeTool st = TABLE then
        (case reply of
           None \<Rightarrow> st
         | Some spec \<Rightarrow>
             if spec = [] then st
             else (case table_spec spec of
                     (r, c) \<Rightarrow>
                       if truthy (to_num r) \<and> truthy (to_num c) then
                         (add_entity (new_table newId worldPos (to_num r) (to_num c)) st)
                           \<lparr> activeTool := SELECT \<rparr>
                       else st))
      else
        (let st1 = st\<lparr> drawingStart := Some worldPos \<rparr>
         in if activeTool st = TEXT then
              (case reply of
                 None \<Rightarrow> st1
               | Some content \<Rightarrow>
                   if content = [] then st1
                   else (add_entity (new_text newId worldPos content) st1)
                          \<lparr> activeTool := SELECT, drawingStart := None \<rparr>)
            else if activeTool st = DOOR then
              (add_entity (new_door newId worldPos) st1) \<lparr> drawingStart := None \<rparr>
            else st1))"


subsection \<open>handleMouseUp\<close>

definition new_wall :: "string \<Rightarrow> point \<Rightarrow> point \<Rightarrow> entity" where
  "new_wall i a b = no_entity\<lparr> e_id := Some i, e_type := Some ''wall'',
     e_start := Some a, e_end := Some b, e_thickness := Some (Fin 5) \<rparr>"

definition new_rect :: "string \<Rightarrow> point \<Rightarrow> jsnum \<Rightarrow> jsnum \<Rightarrow> entity" where
  "new_rect i a w h = no_entity\<lparr> e_id := Some i, e_type := Some ''rect'',
     e_start := Some a, e_width := Some w, e_height := Some h \<rparr>"

definition new_circle :: "string \<Rightarrow> point \<Rightarrow> jsnum \<Rightarrow> entity" where
  "new_circle i c r = no_entity\<lparr> e_id := Some i, e_type := Some ''circle'',
     e_center := Some c, e_radius := Some r \<rparr>"

definition new_dimension :: "string \<Rightarrow> point \<Rightarrow> point \<Rightarrow> entity" where
  "new_dimension i a b = no_entity\<lparr> e_id := Some i, e_type := Some ''dimension'',
     e_start := Some a, e_end := Some b \<rparr>"

definition new_leader :: "string \<Rightarrow> point \<Rightarrow> point \<Rightarrow> string \<Rightarrow> entity" where
  "new_leader i a b t = no_entity\<lparr> e_id := Some i, e_type := Some ''leader'',
     e_start := Some a, e_end := Some b, e_text := Some t \<rparr>"

text \<open>
  The orthogonal snap of the WALL branch. \<^verbatim>\<open>newWall.end\<close> is the very object held in
  \<^verbatim>\<open>mousePos\<close>, and the two assignments write into it: the snapped point is also the new
  value of \<open>mousePos\<close>.
\<close>

definition wall_snap :: "point \<Rightarrow> point \<Rightarrow> point" where
  "wall_snap s e =
     (let e1 = (if \<bar>px s - px e\<bar> < Fin 10 then e\<lparr> px := px s \<rparr> else e);
          e2 = (if \<bar>py s - py e1\<bar> < Fin 10 then e1\<lparr> py := py s \<rparr> else e1)
      in e2)"

definition handleMouseUp :: "string option \<Rightarrow> string \<Rightarrow> app_state \<Rightarrow> app_state" where
  "handleMouseUp reply newId st =
     (let st1 =
        (if activeTool st \<noteq> SELECT \<and> activeTool st \<noteq> TEXT \<and> activeTool st \<noteq> DOOR
            \<and> activeTool st \<noteq> POLYLINE \<and> activeTool st \<noteq> ARC
            \<and> activeTool st \<noteq> INSERT_BLOCK \<and> activeTool st \<noteq> TABLE
            \<and> activeTool st \<noteq> CENTERMARK then
           (case drawingStart st of
              None \<Rightarrow> st
            | Some ds \<Rightarrow>
               (if activeTool st = WALL then
                  (let e = wall_snap ds (mousePos st);
                       st2 = st\<lparr> mousePos := e \<rparr>
                   in if Fin 5 < dist ds e then add_entity (new_wall newId ds e) st2 else st2)
                else if activeTool st = RECT then
                  (let w = px (mousePos st) - px ds;
                       h = py (mousePos st) - py ds
                   in if Fin 5 < \<bar>w\<bar> \<and> Fin 5 < \<bar>h\<bar> then
                        add_entity (new_rect newId
                          \<lparr> px = math_min [px ds, px (mousePos st)],
                            py = math_min [py ds, py (mousePos st)] \<rparr> \<bar>w\<bar> \<bar>h\<bar>) st
                      else st)
                else if activeTool st = CIRCLE then
                  (let r = dist ds (mousePos st)
                   in if Fin 5 < r then add_entity (new_circle newId ds r) st else st)
                else if activeTool st = DIMENSION then
                  add_entity (new_dimension newId ds (mousePos st)) st
                else if activeTool st = LEADER then
                  (case reply of
                     None \<Rightarrow> st
                   | Some t \<Rightarrow>
                       if t = [] then st
                       else add_entity (new_leader newId ds (mousePos st) t) st)
                else st) \<lparr> drawingStart := None \<rparr>)
         else st)
      in st1\<lparr> isDragging := False, dragStart := None \<rparr>)"

subsection \<open>The state at start-up and the scenarios of the specification\<close>

definition initial_state :: app_state where
  "initial_state = \<lparr> entities = [], blockDefs = Map.empty, activeBlockName = None,
     view = \<lparr> v_x = Fin 0, v_y = Fin 0, v_zoom = Fin 1 \<rparr>, activeTool = SELECT,
     isDragging = False, dragStart = None, drawingStart = None, tempPoints = [],
     mousePos = \<lparr> px = Fin 0, py = Fin 0 \<rparr> \<rparr>"

definition pt :: "real \<Rightarrow> real \<Rightarrow> point" where
  "pt a b = \<lparr> px = Fin a, py = Fin b \<rparr>"

text \<open>A press of the primary button at a position of the canvas, the canvas at the origin
  of the page.\<close>

definition press_at :: "real \<Rightarrow> real \<Rightarrow> mouse_event" where
  "press_at a b = \<lparr> clientX = Fin a, clientY = Fin b, button = 0, ctrlKey = False \<rparr>"

definition canvas_rect :: dom_rect where
  "canvas_rect = \<lparr> r_left = Fin 0, r_top = Fin 0, r_width = Fin 800, r_height = Fin 600 \<rparr>"

text \<open>The state when a drag of a two-click tool is released: the tool armed, the press
  recorded in \<open>drawingStart\<close>, the last pointer position in \<open>mousePos\<close>.\<close>

definition drag_state :: "tool \<Rightarrow> point \<Rightarrow> point \<Rightarrow> app_state" where
  "drag_state t a b = initial_state\<lparr> activeTool := t, drawingStart := Some a, mousePos := b \<rparr>"

section \<open>Geometry kernel\<close>

subsection \<open>The arithmetic of doubles\<close>

text \<open>
  What is asked of \<^verbatim>\<open>getArcPath\<close> is about the NaN and the infinities that its
  arithmetic produces, so its arithmetic is that of IEEE 754 doubles: an operation on
  finite numbers returns the double nearest to the exact result, a tie going to the even
  significand, and an infinity when the rounded result leaves the range. A double is
  \<open>m * 2 ^ e\<close> with \<open>\<bar>m\<bar> < 2 ^ 53\<close> and \<open>- 1074 \<le> e\<close>, of absolute value below
  \<open>2 ^ 1024\<close>. On the special values the operations are those of the first section.
  \<^verbatim>\<open>Math.sqrt\<close> and \<^verbatim>\<open>Math.pow(v, 2)\<close> are taken to round correctly too. The sign of
  zero is not modelled.
\<close>

definition round_half_even :: "real \<Rightarrow> int" where
  "round_half_even q =
     (let f = \<lfloor>q\<rfloor>; d = q - of_int f
      in if d < 1 / 2 then f
         else if 1 / 2 < d then f + 1
         else if even f then f else f + 1)"

definition round_double :: "real \<Rightarrow> jsnum" where
  "round_double v =
     (if v = 0 then Fin 0
      else
        (let e = max (\<lfloor>log 2 \<bar>v\<bar>\<rfloor> - 52) (- 1074);
             r = of_int (round_half_even (v / 2 powr of_int e)) * 2 powr of_int e
         in if 2 ^ 1024 \<le> \<bar>r\<bar> then (if 0 < v then PInf else NInf) else Fin r))"








subsection \<open>The arc through three points\<close>




section \<open>View\<close>

text \<open>
  The four running bounds \<^verbatim>\<open>minX, minY, maxX, maxY\<close> and the closure \<^verbatim>\<open>check\<close> that
  widens them; each of the four tests reads and writes its own variable.
\<close>

record bounds =
  minX :: jsnum
  minY :: jsnum
  maxX :: jsnum
  maxY :: jsnum

definition init_bounds :: bounds where
  "init_bounds = \<lparr> minX = PInf, minY = PInf, maxX = NInf, maxY = NInf \<rparr>"

definition check :: "jsnum \<Rightarrow> jsnum \<Rightarrow> bounds \<Rightarrow> bounds" where
  "check x y b =
     \<lparr> minX = (if x < minX b then x else minX b),
       minY = (if y < minY b then y else minY b),
       maxX = (if maxX b < x then x else maxX b),
       maxY = (if maxY b < y then y else maxY b) \<rparr>"

definition check_point :: "point \<Rightarrow> bounds \<Rightarrow> bounds" where
  "check_point p b = check (px p) (py p) b"

text \<open>
  The body of the \<^verbatim>\<open>forEach\<close> of \<^verbatim>\<open>zoomExtents\<close>, which \<^verbatim>\<open>rotateSelected\<close> repeats
  word for word: start and end (the start again when there is no end), centre, x and y,
  polyline points.
\<close>

definition extents_entity :: "entity \<Rightarrow> bounds \<Rightarrow> bounds" where
  "extents_entity e b =
     (let b1 = (case e_start e of
                  None \<Rightarrow> b
                | Some s \<Rightarrow> check_point (case e_end e of None \<Rightarrow> s | Some en \<Rightarrow> en)
                              (check_point s b));
          b2 = (case e_center e of None \<Rightarrow> b1 | Some c \<Rightarrow> check_point c b1);
          b3 = (case e_x e of None \<Rightarrow> b2 | Some x \<Rightarrow> check x (to_num (e_y e)) b2);
          b4 = (case e_points e of None \<Rightarrow> b3 | Some ps \<Rightarrow> foldl (\<lambda>acc p. check_point p acc) b3 ps)
      in b4)"

definition extents :: "entity list \<Rightarrow> bounds" where
  "extents es = foldl (\<lambda>acc e. extents_entity e acc) init_bounds es"

definition default_view :: view_state where
  "default_view = \<lparr> v_x = Fin 0, v_y = Fin 0, v_zoom = Fin 1 \<rparr>"

text \<open>\<^verbatim>\<open>zoomExtents\<close>: the view after the call, from the view before it.\<close>

definition zoomExtents :: "entity list \<Rightarrow> dom_rect \<Rightarrow> view_state \<Rightarrow> view_state" where
  "zoomExtents es rect v =
     (if length es = 0 then default_view
      else
        (let b = extents es
         in if \<not> isFinite (minX b) then v
            else
              (let padding = Fin 50;
                   w = maxX b - minX b;
                   h = maxY b - minY b;
                   scaleX = (r_width rect - padding * Fin 2) / w;
                   scaleY = (r_height rect - padding * Fin 2) / h;
                   zoom = math_min [scaleX, scaleY, Fin 5];
                   cx = (minX b + maxX b) / Fin 2;
                   cy = (minY b + maxY b) / Fin 2
               in \<lparr> v_x = r_width rect / Fin 2 - cx * zoom,
                    v_y = r_height rect / Fin 2 - cy * zoom,
                    v_zoom = zoom \<rparr>)))"

text \<open>The scales that \<^verbatim>\<open>zoomExtents\<close> computes on the way, for the statement of its result.\<close>

definition scaleX_of :: "entity list \<Rightarrow> dom_rect \<Rightarrow> jsnum" where
  "scaleX_of es rect = (r_width rect - Fin 50 * Fin 2) / (maxX (extents es) - minX (extents es))"

definition scaleY_of :: "entity list \<Rightarrow> dom_rect \<Rightarrow> jsnum" where
  "scaleY_of es rect = (r_height rect - Fin 50 * Fin 2) / (maxY (extents es) - minY (extents es))"

section \<open>Block authoring\<close>

datatype error = TypeError

text \<open>
  \<^verbatim>\<open>blockDefs\<close> is a plain object, and \<^verbatim>\<open>blockDefs[name]\<close> also finds what the object
  inherits from \<^verbatim>\<open>Object.prototype\<close>; each of these is truthy.
\<close>

definition prototype_keys :: "string list" where
  "prototype_keys = [''constructor'', ''toString'', ''toLocaleString'', ''valueOf'',
     ''hasOwnProperty'', ''isPrototypeOf'', ''propertyIsEnumerable'', ''__proto__'',
     ''__defineGetter__'', ''__defineSetter__'', ''__lookupGetter__'', ''__lookupSetter__'']"

definition block_lookup_truthy :: "(string \<rightharpoonup> block_def) \<Rightarrow> string \<Rightarrow> bool" where
  "block_lookup_truthy defs name = (defs name \<noteq> None \<or> name \<in> set prototype_keys)"

text \<open>The bounds of \<^verbatim>\<open>createBlock\<close>: start, centre, polyline points, x and y.\<close>

definition block_bounds_entity :: "entity \<Rightarrow> bounds \<Rightarrow> bounds" where
  "block_bounds_entity e b =
     (let b1 = (case e_start e of None \<Rightarrow> b | Some s \<Rightarrow> check_point s b);
          b2 = (case e_center e of None \<Rightarrow> b1 | Some c \<Rightarrow> check_point c b1);
          b3 = (case e_points e of None \<Rightarrow> b2 | Some ps \<Rightarrow> foldl (\<lambda>acc p. check_point p acc) b2 ps);
          b4 = (case e_x e of None \<Rightarrow> b3 | Some x \<Rightarrow> check x (to_num (e_y e)) b3)
      in b4)"

definition block_basePoint :: "entity list \<Rightarrow> point" where
  "block_basePoint selected =
     (let b = foldl (\<lambda>acc e. block_bounds_entity e acc) init_bounds selected;
          basePoint = \<lparr> px = (minX b + maxX b) / Fin 2, py = (minY b + maxY b) / Fin 2 \<rparr>
      in if \<not> isFinite (px basePoint) then \<lparr> px = Fin 0, py = Fin 0 \<rparr> else basePoint)"

definition shift_point :: "point \<Rightarrow> point \<Rightarrow> point" where
  "shift_point base p = \<lparr> px = px p - px base, py = py p - py base \<rparr>"

text \<open>
  One entity of the definition: the deep copy (\<^verbatim>\<open>JSON.parse(JSON.stringify(ent))\<close>, the
  identity on an entity whose numbers are finite) without \<^verbatim>\<open>id\<close> and \<^verbatim>\<open>selected\<close>,
  every positional field shifted. A copy that has \<^verbatim>\<open>p1\<close> but not \<^verbatim>\<open>p2\<close> or \<^verbatim>\<open>p3\<close>
  makes the loop over the three keys throw.
\<close>

definition normalize_entity :: "point \<Rightarrow> entity \<Rightarrow> error + entity" where
  "normalize_entity base ent =
     (let c0 = ent\<lparr> e_id := None, e_selected := None \<rparr>;
          c1 = c0\<lparr> e_start := map_option (shift_point base) (e_start c0) \<rparr>;
          c2 = c1\<lparr> e_end := map_option (shift_point base) (e_end c1) \<rparr>;
          c3 = c2\<lparr> e_center := map_option (shift_point base) (e_center c2) \<rparr>;
          c4 = c3\<lparr> e_points := map_option (map (shift_point base)) (e_points c3) \<rparr>;
          c5 = (case e_x c4 of
                  None \<Rightarrow> c4
                | Some x \<Rightarrow> c4\<lparr> e_x := Some (x - px base),
                                e_y := Some (to_num (e_y c4) - py base) \<rparr>)
      in case e_p1 c5 of
           None \<Rightarrow> Inr c5
         | Some a1 \<Rightarrow>
             (case (e_p2 c5, e_p3 c5) of
                (Some a2, Some a3) \<Rightarrow>
                  Inr (c5\<lparr> e_p1 := Some (shift_point base a1),
                           e_p2 := Some (shift_point base a2),
                           e_p3 := Some (shift_point base a3) \<rparr>)
              | _ \<Rightarrow> Inl TypeError))"

text \<open>\<^verbatim>\<open>selected.map(...)\<close> with a callback that may throw: the first throw ends the map.\<close>

fun map_result :: "('a \<Rightarrow> error + 'b) \<Rightarrow> 'a list \<Rightarrow> error + 'b list" where
  "map_result f [] = Inr []"
| "map_result f (v # vs) =
     (case f v of
        Inl err \<Rightarrow> Inl err
      | Inr w \<Rightarrow> (case map_result f vs of Inl err \<Rightarrow> Inl err | Inr ws \<Rightarrow> Inr (w # ws)))"

text \<open>
  \<^verbatim>\<open>createBlock\<close>. \<open>reply\<close> is what the prompt for the name returns and \<open>newId\<close> what
  \<^verbatim>\<open>generateId()\<close> returns. The function returns the state unchanged where the source
  returns early, and the error where it throws (before any state is set).
\<close>

definition createBlock :: "string option \<Rightarrow> string \<Rightarrow> app_state \<Rightarrow> error + app_state" where
  "createBlock reply newId st =
     (let selected = filter is_selected (entities st)
      in if length selected = 0 then Inr st
         else (case reply of
                 None \<Rightarrow> Inr st
               | Some name \<Rightarrow>
                   if name = [] then Inr st
                   else if block_lookup_truthy (blockDefs st) name then Inr st
                   else
                     (let basePoint = block_basePoint selected
                      in case map_result (normalize_entity basePoint) selected of
                           Inl err \<Rightarrow> Inl err
                         | Inr normalizedEntities \<Rightarrow>
                             (let newInstance = (new_insert newId name basePoint)
                                                  \<lparr> e_selected := Some True \<rparr>
                              in Inr (st\<lparr> blockDefs := (blockDefs st)(name \<mapsto>
                                            \<lparr> b_name = name, b_entities = normalizedEntities,
                                              b_basePoint = basePoint \<rparr>),
                                          entities := filter (\<lambda>e. \<not> is_selected e) (entities st)
                                                        @ [newInstance] \<rparr>)))))"

section \<open>Transform operations\<close>

text \<open>
  The updaters that \<^verbatim>\<open>mirrorSelected\<close> and \<^verbatim>\<open>rotateSelected\<close> pass to
  \<^verbatim>\<open>setEntities\<close>, as functions of the entity list. Reading \<^verbatim>\<open>.x\<close> of a point that is
  not there throws a TypeError, which is the result \<open>Inl TypeError\<close>. The deep copy
  \<^verbatim>\<open>JSON.parse(JSON.stringify(e))\<close> is the identity on an entity whose numbers are finite.
\<close>

subsection \<open>Mirror\<close>







subsection \<open>Rotate\<close>

text \<open>
  \<^verbatim>\<open>const angle = Math.PI / 2\<close>: \<^verbatim>\<open>Math.cos(angle)\<close> and \<^verbatim>\<open>Math.sin(angle)\<close> are
  the exact cosine and sine of the quarter turn here, 0 and 1 (the double that
  \<^verbatim>\<open>Math.cos\<close> returns is about 6.1e-17, since \<^verbatim>\<open>Math.PI\<close> is a rounded value).
\<close>

definition cos_angle :: real where
  "cos_angle = 0"

definition sin_angle :: real where
  "sin_angle = 1"





section \<open>Action batch of the command interpreter\<close>

text \<open>
  One action of the response: the key \<^verbatim>\<open>action\<close>, and the other keys, which are those of
  an entity (\<^verbatim>\<open>type\<close>, \<^verbatim>\<open>id\<close> and the entity fields), each of them optional. A string
  is ASCII, and \<^verbatim>\<open>toLowerCase\<close> maps the 26 capital letters.
\<close>

record action =
  a_action :: "string option"
  a_fields :: entity

definition toLowerCase :: "string \<Rightarrow> string" where
  "toLowerCase s = map (\<lambda>c. let n = (of_char c :: nat)
                            in if 65 \<le> n \<and> n \<le> 90 then char_of (n + 32) else c) s"

definition orElse :: "'a option \<Rightarrow> 'a option \<Rightarrow> 'a option" where
  "orElse a b = (case a of None \<Rightarrow> b | Some v \<Rightarrow> Some v)"

text \<open>\<^verbatim>\<open>{ ...e, ...act }\<close>: a key of the action wins over the key of the entity.\<close>

definition merge_entity :: "entity \<Rightarrow> entity \<Rightarrow> entity" where
  "merge_entity e a =
     \<lparr> e_id = orElse (e_id a) (e_id e),
       e_type = orElse (e_type a) (e_type e),
       e_selected = orElse (e_selected a) (e_selected e),
       e_start = orElse (e_start a) (e_start e),
       e_end = orElse (e_end a) (e_end e),
       e_thickness = orElse (e_thickness a) (e_thickness e),
       e_center = orElse (e_center a) (e_center e),
       e_radius = orElse (e_radius a) (e_radius e),
       e_width = orElse (e_width a) (e_width e),
       e_height = orElse (e_height a) (e_height e),
       e_points = orElse (e_points a) (e_points e),
       e_closed = orElse (e_closed a) (e_closed e),
       e_p1 = orElse (e_p1 a) (e_p1 e),
       e_p2 = orElse (e_p2 a) (e_p2 e),
       e_p3 = orElse (e_p3 a) (e_p3 e),
       e_x = orElse (e_x a) (e_x e),
       e_y = orElse (e_y a) (e_y e),
       e_rotation = orElse (e_rotation a) (e_rotation e),
       e_content = orElse (e_content a) (e_content e),
       e_fontSize = orElse (e_fontSize a) (e_fontSize e),
       e_blockName = orElse (e_blockName a) (e_blockName e),
       e_insertPoint = orElse (e_insertPoint a) (e_insertPoint e),
       e_scale = orElse (e_scale a) (e_scale e),
       e_text = orElse (e_text a) (e_text e),
       e_rows = orElse (e_rows a) (e_rows e),
       e_cols = orElse (e_cols a) (e_cols e),
       e_rowHeight = orElse (e_rowHeight a) (e_rowHeight e),
       e_colWidth = orElse (e_colWidth a) (e_colWidth e),
       e_size = orElse (e_size a) (e_size e) \<rparr>"

definition apply_action :: "string \<Rightarrow> action \<Rightarrow> entity list \<Rightarrow> entity list" where
  "apply_action newId act currentEntities =
     (let action = map_option toLowerCase (a_action act);
          type = map_option toLowerCase (e_type (a_fields act))
      in if action = Some ''clear'' then []
         else if action = Some ''create'' then
           (let newEntity = (a_fields act)\<lparr> e_id := Some newId, e_type := type \<rparr>
            in if type = Some ''wall'' \<and> (e_start newEntity = None \<or> e_end newEntity = None)
                 then currentEntities
               else if type = Some ''rect''
                       \<and> (e_start newEntity = None \<or> \<not> truthy (to_num (e_width newEntity)))
                 then currentEntities
               else if type = Some ''circle''
                       \<and> (e_center newEntity = None \<or> \<not> truthy (to_num (e_radius newEntity)))
                 then currentEntities
               else currentEntities @ [newEntity])
         else if action = Some ''delete'' then
           filter (\<lambda>e. e_id e \<noteq> e_id (a_fields act)) currentEntities
         else if action = Some ''update'' then
           map (\<lambda>e. if e_id e = e_id (a_fields act) then merge_entity e (a_fields act) else e)
             currentEntities
         else currentEntities)"

text \<open>
  The updater of \<^verbatim>\<open>callAI\<close>: the actions folded in the order of the array. \<open>gen k\<close> is
  the identifier that \<^verbatim>\<open>generateId()\<close> returns while the action number \<open>k\<close> is applied.
\<close>

definition apply_actions :: "(nat \<Rightarrow> string) \<Rightarrow> action list \<Rightarrow> entity list \<Rightarrow> entity list" where
  "apply_actions gen actions prevEntities =
     foldl (\<lambda>cur (k, act). apply_action (gen k) act cur) prevEntities (enumerate 0 actions)"

text \<open>Three presses with the ARC tool, starting from an empty point buffer.\<close>

definition arc_press1 :: app_state where
  "arc_press1 = handleMouseDown (press_at 0 0) canvas_rect None None ''a''
                  (initial_state\<lparr> activeTool := ARC \<rparr>)"

definition arc_press2 :: app_state where
  "arc_press2 = handleMouseDown (press_at 10 0) canvas_rect None None ''b'' arc_press1"

definition arc_press3 :: app_state where
  "arc_press3 = handleMouseDown (press_at 5 5) canvas_rect None None ''c'' arc_press2"

text \<open>
  The batch of the scenario, one rect without \<^verbatim>\<open>height\<close>; the same action without
  \<^verbatim>\<open>width\<close>; and a supply of identifiers.
\<close>

definition rect_missing_height :: action where
  "rect_missing_height = \<lparr> a_action = Some ''create'',
     a_fields = no_entity\<lparr> e_type := Some ''rect'', e_start := Some (pt 0 0),
                           e_width := Some (Fin 10) \<rparr> \<rparr>"

definition rect_missing_width :: action where
  "rect_missing_width = \<lparr> a_action = Some ''create'',
     a_fields = no_entity\<lparr> e_type := Some ''rect'', e_start := Some (pt 0 0),
                           e_height := Some (Fin 10) \<rparr> \<rparr>"

definition numbered_id :: "nat \<Rightarrow> string" where
  "numbered_id k = replicate (Suc k) CHR ''n''"


text \<open>A drawing of one arc, which has none of the fields that the bounds read, and a view
  that is not the default one.\<close>

definition arc_only :: "entity list" where
  "arc_only = [no_entity\<lparr> e_id := Some ''a'', e_type := Some ''arc'', e_p1 := Some (pt 0 0),
                 e_p2 := Some (pt 5 5), e_p3 := Some (pt 10 0) \<rparr>]"

definition panned_view :: view_state where
  "panned_view = \<lparr> v_x = Fin 10, v_y = Fin 20, v_zoom = Fin 2 \<rparr>"

definition no_extent_fields :: "entity \<Rightarrow> bool" where
  "no_extent_fields e =
     (e_start e = None \<and> e_center e = None \<and> e_x e = None \<and> e_points e = None)"

text \<open>The selected circle of the block scenario.\<close>

definition circle50 :: "string \<Rightarrow> entity" where
  "circle50 i = no_entity\<lparr> e_id := Some i, e_type := Some ''circle'',
     e_selected := Some True, e_center := Some (pt 50 50), e_radius := Some (Fin 20) \<rparr>"

text \<open>A drawing of a single point: one text label.\<close>

definition point_drawing :: "entity list" where
  "point_drawing = [no_entity\<lparr> e_id := Some ''t'', e_type := Some ''text'', e_x := Some (Fin 7),
                      e_y := Some (Fin 9), e_content := Some ''A'', e_fontSize := Some (Fin 12) \<rparr>]"

text \<open>A drawing of one text that has an x and no y, as the action batch accepts it.\<close>

definition text_without_y :: "entity list" where
  "text_without_y = [no_entity\<lparr> e_id := Some ''t'', e_type := Some ''text'', e_x := Some (Fin 5),
                       e_content := Some ''A'', e_fontSize := Some (Fin 12) \<rparr>]"

text \<open>A drawing of a door and the selected circle; the block that the scenario stores;
  the drawing once the block is stored.\<close>

definition circle_state :: app_state where
  "circle_state = initial_state\<lparr> entities := [new_door ''d'' (pt 1 2), circle50 ''c''] \<rparr>"

definition block_B1 :: block_def where
  "block_B1 = \<lparr> b_name = ''B1'',
     b_entities = [no_entity\<lparr> e_type := Some ''circle'', e_center := Some (pt 0 0),
                     e_radius := Some (Fin 20) \<rparr>],
     b_basePoint = pt 50 50 \<rparr>"

definition block_state :: app_state where
  "block_state = circle_state\<lparr> blockDefs := [''B1'' \<mapsto> block_B1] \<rparr>"

section \<open>Well-formed entities\<close>








section \<open>Notions for the proofs about mirror and rotate\<close>

text \<open>
  The branches of \<^verbatim>\<open>mirrorSelected\<close> and \<^verbatim>\<open>rotateSelected\<close> group the entity types:
  the types with a start and an end, the rect, the types with a centre, the types anchored
  at x and y (the door apart, which mirror leaves alone and rotate also turns), the
  polyline, and every other type.
\<close>

datatype kind = Segment | Box | Round | Anchor | Hinged | Poly | Plain

definition type_kind :: "string option \<Rightarrow> kind" where
  "type_kind t =
     (if t = Some ''wall'' \<or> t = Some ''dimension'' \<or> t = Some ''leader'' then Segment
      else if t = Some ''rect'' then Box
      else if t = Some ''circle'' \<or> t = Some ''centermark'' then Round
      else if t = Some ''text'' \<or> t = Some ''image'' \<or> t = Some ''table'' then Anchor
      else if t = Some ''door'' then Hinged
      else if t = Some ''polyline'' then Poly
      else Plain)"

definition kind_of :: "entity \<Rightarrow> kind" where
  "kind_of e = type_kind (e_type e)"










definition rx :: "real \<Rightarrow> real \<Rightarrow> real \<Rightarrow> real" where
  "rx cx cy w = cx + cy - w"

definition ry :: "real \<Rightarrow> real \<Rightarrow> real \<Rightarrow> real" where
  "ry cx cy u = cy - cx + u"


definition fin_bounds :: "real \<Rightarrow> real \<Rightarrow> real \<Rightarrow> real \<Rightarrow> bounds" where
  "fin_bounds x0 y0 x1 y1 = \<lparr> minX = Fin x0, minY = Fin y0, maxX = Fin x1, maxY = Fin y1 \<rparr>"

definition good_bounds :: "bounds \<Rightarrow> bool" where
  "good_bounds b = (b = init_bounds
     \<or> (isFinite (minX b) \<and> isFinite (minY b) \<and> isFinite (maxX b) \<and> isFinite (maxY b)))"









section \<open>Verification\<close>

subsection \<open>Arithmetic of finite numbers\<close>

lemma fin_minus [simp]: "Fin a - Fin b = Fin (a - b)"
  by (simp add: minus_jsnum_def)

lemma five_less_sqrt: "(Fin 5 < math_sqrt (Fin v)) = (25 < v)"
proof (cases "v < 0")
  case True
  then show ?thesis by simp
next
  case False
  have "sqrt 25 = 5"
    using real_sqrt_abs [of 5] by simp
  then have "(5 < sqrt v) = (sqrt 25 < sqrt v)" by simp
  also have "\<dots> = (25 < v)" by (rule real_sqrt_less_iff)
  finally show ?thesis using False by simp
qed

lemmas scenario_defs = initial_state_def press_at_def canvas_rect_def pt_def drag_state_def

subsection \<open>The ARC tool\<close>

lemma arc_press1_eq:
  "arc_press1 = initial_state\<lparr> activeTool := ARC, tempPoints := [pt 0 0] \<rparr>"
  by (simp add: arc_press1_def handleMouseDown_def scenario_defs screenToWorld_def Let_def)

lemma arc_press2_eq:
  "arc_press2 = initial_state\<lparr> activeTool := ARC,
      entities := [new_arc ''b'' (pt 0 0) (pt 10 0) (pt 10 0)] \<rparr>"
  by (simp add: arc_press2_def arc_press1_eq handleMouseDown_def scenario_defs
      screenToWorld_def add_entity_def Let_def)

lemma arc_press3_eq:
  "arc_press3 = initial_state\<lparr> activeTool := ARC,
      entities := [new_arc ''b'' (pt 0 0) (pt 10 0) (pt 10 0)], tempPoints := [pt 5 5] \<rparr>"
  by (simp add: arc_press3_def arc_press2_eq handleMouseDown_def scenario_defs
      screenToWorld_def add_entity_def Let_def)

lemma arc_second_press:
  assumes "activeTool st = ARC" and "button ev \<noteq> 1" and "tempPoints st = [p]"
  shows "handleMouseDown ev rect hit reply i st
           = st\<lparr> entities := entities st
                    @ [new_arc i p
                         (screenToWorld \<lparr> px = clientX ev - r_left rect,
                                          py = clientY ev - r_top rect \<rparr> (view st))
                         (screenToWorld \<lparr> px = clientX ev - r_left rect,
                                          py = clientY ev - r_top rect \<rparr> (view st))],
                  tempPoints := [] \<rparr>"
  using assms by (simp add: handleMouseDown_def add_entity_def Let_def)

text \<open>
  C1. The claim: with the ARC tool the first two presses only buffer points, and the third
  press commits the arc whose \<open>p1\<close>, \<open>p2\<close> are the buffered points and whose \<open>p3\<close> is the
  third position. The handler tests the length of the buffer after it has appended the
  press, against 2: the arc is committed by the second press, with the second position as
  both \<open>p2\<close> and \<open>p3\<close>, and a third press starts a new buffer. Presses at (0,0), (10,0)
  and (5,5): after the first the list is empty and the buffer holds (0,0); after the second
  the list holds the arc (0,0), (10,0), (10,0) and the buffer is empty; the third press
  leaves the list as it is and buffers (5,5).
\<close>

theorem arc_committed_on_second_press:
  "entities arc_press1 = [] \<and> tempPoints arc_press1 = [pt 0 0]
   \<and> entities arc_press2
       = [no_entity\<lparr> e_id := Some ''b'', e_type := Some ''arc'', e_p1 := Some (pt 0 0),
                       e_p2 := Some (pt 10 0), e_p3 := Some (pt 10 0) \<rparr>]
   \<and> tempPoints arc_press2 = []
   \<and> entities arc_press3 = entities arc_press2 \<and> tempPoints arc_press3 = [pt 5 5]"
  by (simp add: arc_press1_eq arc_press2_eq arc_press3_eq initial_state_def new_arc_def)

subsection \<open>The WALL tool\<close>

text \<open>
  C2, as stated, fails: released at (3,3) after a press at (0,0), both differences are below
  the threshold 10, the snap moves the end onto the start, and the wall, of length 0, is
  not created.
\<close>

theorem wall_3_3_counterexample:
  "wall_snap (pt 0 0) (pt 3 3) = pt 0 0
   \<and> entities (handleMouseUp None ''w'' (drag_state WALL (pt 0 0) (pt 3 3))) = []"
  by (simp add: handleMouseUp_def scenario_defs wall_snap_def dist_def math_pow2_def
      add_entity_def five_less_sqrt Let_def)

text \<open>
  C2, amended. A wall from (0,0) released at (3,3) is snapped on both axes and no entity
  is created; released at (200,3) it is snapped to the horizontal and the wall created ends
  at (200,0); released at (30,40), where no difference is below 10, the wall created is the
  diagonal one, ending at (30,40).
\<close>

theorem wall_snap_scenarios:
  "wall_snap (pt 0 0) (pt 3 3) = pt 0 0
   \<and> entities (handleMouseUp None ''w'' (drag_state WALL (pt 0 0) (pt 3 3))) = []
   \<and> wall_snap (pt 0 0) (pt 200 3) = pt 200 0
   \<and> entities (handleMouseUp None ''w'' (drag_state WALL (pt 0 0) (pt 200 3)))
       = [no_entity\<lparr> e_id := Some ''w'', e_type := Some ''wall'', e_start := Some (pt 0 0),
                       e_end := Some (pt 200 0), e_thickness := Some (Fin 5) \<rparr>]
   \<and> wall_snap (pt 0 0) (pt 30 40) = pt 30 40
   \<and> entities (handleMouseUp None ''w'' (drag_state WALL (pt 0 0) (pt 30 40)))
       = [no_entity\<lparr> e_id := Some ''w'', e_type := Some ''wall'', e_start := Some (pt 0 0),
                       e_end := Some (pt 30 40), e_thickness := Some (Fin 5) \<rparr>]"
  by (simp add: handleMouseUp_def scenario_defs wall_snap_def dist_def math_pow2_def
      add_entity_def new_wall_def five_less_sqrt Let_def)

subsection \<open>The TABLE tool\<close>

lemma parseInt_cases: "parseInt s = NaN \<or> (\<exists>n::int. parseInt s = Fin (of_int n))"
proof -
  have "\<exists>n::int. (if b then - 1 else 1) * real k = of_int n" for b k
    by (rule exI [of _ "(if b then - 1 else 1) * int k"]) simp
  then show ?thesis
    by (simp add: parseInt_def Let_def)
qed

lemma table_spec_cases:
  "table_spec spec = (r, c) \<Longrightarrow>
     (to_num r = NaN \<or> (\<exists>a. r = Some (Fin a))) \<and> (to_num c = NaN \<or> (\<exists>a. c = Some (Fin a)))"
  using parseInt_cases [of "split_comma spec ! 0"] parseInt_cases [of "split_comma spec ! 1"]
  by (auto simp add: table_spec_def Let_def split: if_splits)

lemma table_spec_empty: "table_spec [] = (Some NaN, None)"
  by (simp add: table_spec_def parseInt_def Let_def)

text \<open>
  C9, amended. A press with the TABLE tool (not with the middle button) commits a table at
  the pointer position, with row height 20 and column width 60, and returns the tool to
  SELECT, exactly when the reply to the prompt is a string whose first two pieces between
  commas are read by \<^verbatim>\<open>parseInt\<close> as numbers other than zero: negative integers are
  accepted as they are. For every other reply (the dialog cancelled, the empty string, a
  piece that is not a number, a zero, a single number) the state is unchanged.
\<close>

theorem table_press:
  assumes "activeTool st = TABLE" and "button ev \<noteq> 1"
  shows "handleMouseDown ev rect hit reply i st =
     (case reply of
        None \<Rightarrow> st
      | Some spec \<Rightarrow>
          (case table_spec spec of
             (Some (Fin r), Some (Fin c)) \<Rightarrow>
               if r \<noteq> 0 \<and> c \<noteq> 0 then
                 st\<lparr> entities := entities st
                        @ [no_entity\<lparr> e_id := Some i, e_type := Some ''table'',
                             e_x := Some (px (screenToWorld
                               \<lparr> px = clientX ev - r_left rect, py = clientY ev - r_top rect \<rparr>
                               (view st))),
                             e_y := Some (py (screenToWorld
                               \<lparr> px = clientX ev - r_left rect, py = clientY ev - r_top rect \<rparr>
                               (view st))),
                             e_rows := Some (Fin r), e_cols := Some (Fin c),
                             e_rowHeight := Some (Fin 20), e_colWidth := Some (Fin 60) \<rparr>],
                     activeTool := SELECT \<rparr>
               else st
           | _ \<Rightarrow> st))"
proof (cases reply)
  case None
  with assms show ?thesis by (simp add: handleMouseDown_def Let_def)
next
  case (Some spec)
  obtain r c where rc: "table_spec spec = (r, c)" by (cases "table_spec spec")
  show ?thesis
  proof (cases "spec = []")
    case True
    with assms Some show ?thesis
      by (simp add: handleMouseDown_def Let_def table_spec_empty)
  next
    case False
    from table_spec_cases [OF rc] have
      "(to_num r = NaN \<or> (\<exists>a. r = Some (Fin a)))" "(to_num c = NaN \<or> (\<exists>a. c = Some (Fin a)))"
      by simp_all
    with assms Some False rc show ?thesis
      by (auto simp add: handleMouseDown_def add_entity_def new_table_def Let_def
          split: option.splits jsnum.splits)
  qed
qed

text \<open>
  C9, as stated, fails: the reply \<^verbatim>\<open>-2,3\<close> creates a table of \<open>-2\<close> rows.
\<close>

theorem table_negative_counterexample:
  "entities (handleMouseDown (press_at 100 50) canvas_rect None (Some ''-2,3'') ''t''
              (initial_state\<lparr> activeTool := TABLE \<rparr>))
     = [no_entity\<lparr> e_id := Some ''t'', e_type := Some ''table'', e_x := Some (Fin 100),
                     e_y := Some (Fin 50), e_rows := Some (Fin (- 2)), e_cols := Some (Fin 3),
                     e_rowHeight := Some (Fin 20), e_colWidth := Some (Fin 60) \<rparr>]"
  by (simp add: handleMouseDown_def scenario_defs screenToWorld_def add_entity_def new_table_def
      Let_def
      table_spec_def parseInt_def is_space_def digit_val_def digits_value_def)

lemma table_spec_examples:
  "table_spec ''4,3'' = (Some (Fin 4), Some (Fin 3))"
  "table_spec ''0,3'' = (Some (Fin 0), Some (Fin 3))"
  "table_spec ''abc'' = (Some NaN, None)"
  "table_spec ''7'' = (Some (Fin 7), None)"
  by (simp_all add: table_spec_def parseInt_def is_space_def digit_val_def digits_value_def)

theorem table_press_witness:
  "activeTool (initial_state\<lparr> activeTool := TABLE \<rparr>) = TABLE \<and> button (press_at 100 50) \<noteq> 1
   \<and> handleMouseDown (press_at 100 50) canvas_rect None (Some ''4,3'') ''t''
        (initial_state\<lparr> activeTool := TABLE \<rparr>)
      = initial_state\<lparr> entities :=
          [no_entity\<lparr> e_id := Some ''t'', e_type := Some ''table'', e_x := Some (Fin 100),
             e_y := Some (Fin 50), e_rows := Some (Fin 4), e_cols := Some (Fin 3),
             e_rowHeight := Some (Fin 20), e_colWidth := Some (Fin 60) \<rparr>] \<rparr>
   \<and> handleMouseDown (press_at 100 50) canvas_rect None (Some ''0,3'') ''t''
        (initial_state\<lparr> activeTool := TABLE \<rparr>) = initial_state\<lparr> activeTool := TABLE \<rparr>
   \<and> handleMouseDown (press_at 100 50) canvas_rect None (Some ''abc'') ''t''
        (initial_state\<lparr> activeTool := TABLE \<rparr>) = initial_state\<lparr> activeTool := TABLE \<rparr>"
proof -
  have t: "activeTool (initial_state\<lparr> activeTool := TABLE \<rparr>) = TABLE" by simp
  have b: "button (press_at 100 50) \<noteq> 1" by (simp add: press_at_def)
  show ?thesis
    using table_press [OF t b, of canvas_rect None "Some ''4,3''" "''t''"]
      table_press [OF t b, of canvas_rect None "Some ''0,3''" "''t''"]
      table_press [OF t b, of canvas_rect None "Some ''abc''" "''t''"]
    by (simp add: table_spec_examples initial_state_def press_at_def canvas_rect_def pt_def
        screenToWorld_def)
qed

subsection \<open>The RECT tool\<close>

lemma math_min2:
  "Fin 5 < \<bar>b - a\<bar> \<Longrightarrow>
     math_min [a, b] \<le> a \<and> math_min [a, b] \<le> b \<and> (math_min [a, b] = a \<or> math_min [a, b] = b)"
  by (cases a; cases b) (simp_all add: minus_jsnum_def)

lemma five_less_pos: "Fin 5 < v \<Longrightarrow> Fin 0 < v"
  by (cases v) simp_all

lemma rect_press:
  assumes "activeTool st = RECT" and "button ev \<noteq> 1"
  shows "handleMouseDown ev rect hit reply i st
           = st\<lparr> drawingStart := Some (screenToWorld
                  \<lparr> px = clientX ev - r_left rect, py = clientY ev - r_top rect \<rparr> (view st)) \<rparr>"
  using assms by (simp add: handleMouseDown_def Let_def)

lemma rect_release_no_start:
  assumes "activeTool st = RECT" and "drawingStart st = None"
  shows "entities (handleMouseUp reply i st) = entities st"
  using assms by (simp add: handleMouseUp_def Let_def)

text \<open>
  C10. When the drag of the RECT tool is released, a rect is appended exactly when both
  extents of the drag exceed 5; its width and height are the absolute extents, which are
  then above 5 and positive, and each coordinate of its start is the lesser of the two
  corners' coordinates. Otherwise the entity list is unchanged.
\<close>

theorem rect_release:
  assumes "activeTool st = RECT" and "drawingStart st = Some ds"
  shows "entities (handleMouseUp reply i st) =
     (if Fin 5 < \<bar>px (mousePos st) - px ds\<bar> \<and> Fin 5 < \<bar>py (mousePos st) - py ds\<bar>
      then entities st
             @ [no_entity\<lparr> e_id := Some i, e_type := Some ''rect'',
                  e_start := Some \<lparr> px = math_min [px ds, px (mousePos st)],
                                     py = math_min [py ds, py (mousePos st)] \<rparr>,
                  e_width := Some \<bar>px (mousePos st) - px ds\<bar>,
                  e_height := Some \<bar>py (mousePos st) - py ds\<bar> \<rparr>]
      else entities st)
   \<and> (Fin 5 < \<bar>px (mousePos st) - px ds\<bar> \<and> Fin 5 < \<bar>py (mousePos st) - py ds\<bar> \<longrightarrow>
        Fin 0 < \<bar>px (mousePos st) - px ds\<bar> \<and> Fin 0 < \<bar>py (mousePos st) - py ds\<bar>
        \<and> math_min [px ds, px (mousePos st)] \<le> px ds
        \<and> math_min [px ds, px (mousePos st)] \<le> px (mousePos st)
        \<and> (math_min [px ds, px (mousePos st)] = px ds
            \<or> math_min [px ds, px (mousePos st)] = px (mousePos st))
        \<and> math_min [py ds, py (mousePos st)] \<le> py ds
        \<and> math_min [py ds, py (mousePos st)] \<le> py (mousePos st)
        \<and> (math_min [py ds, py (mousePos st)] = py ds
            \<or> math_min [py ds, py (mousePos st)] = py (mousePos st)))"
proof (intro conjI impI)
  show "entities (handleMouseUp reply i st) =
     (if Fin 5 < \<bar>px (mousePos st) - px ds\<bar> \<and> Fin 5 < \<bar>py (mousePos st) - py ds\<bar>
      then entities st
             @ [no_entity\<lparr> e_id := Some i, e_type := Some ''rect'',
                  e_start := Some \<lparr> px = math_min [px ds, px (mousePos st)],
                                     py = math_min [py ds, py (mousePos st)] \<rparr>,
                  e_width := Some \<bar>px (mousePos st) - px ds\<bar>,
                  e_height := Some \<bar>py (mousePos st) - py ds\<bar> \<rparr>]
      else entities st)"
    using assms by (simp add: handleMouseUp_def Let_def add_entity_def new_rect_def)
next
  assume h: "Fin 5 < \<bar>px (mousePos st) - px ds\<bar> \<and> Fin 5 < \<bar>py (mousePos st) - py ds\<bar>"
  from h show "Fin 0 < \<bar>px (mousePos st) - px ds\<bar>" by (simp add: five_less_pos)
  from h show "Fin 0 < \<bar>py (mousePos st) - py ds\<bar>" by (simp add: five_less_pos)
  from h math_min2 [where a = "px ds" and b = "px (mousePos st)"]
  show "math_min [px ds, px (mousePos st)] \<le> px ds"
    "math_min [px ds, px (mousePos st)] \<le> px (mousePos st)"
    "math_min [px ds, px (mousePos st)] = px ds
       \<or> math_min [px ds, px (mousePos st)] = px (mousePos st)"
    by blast+
  from h math_min2 [where a = "py ds" and b = "py (mousePos st)"]
  show "math_min [py ds, py (mousePos st)] \<le> py ds"
    "math_min [py ds, py (mousePos st)] \<le> py (mousePos st)"
    "math_min [py ds, py (mousePos st)] = py ds
       \<or> math_min [py ds, py (mousePos st)] = py (mousePos st)"
    by blast+
qed


theorem rect_release_witness:
  "activeTool (drag_state RECT (pt 10 10) (pt 0 30)) = RECT
   \<and> drawingStart (drag_state RECT (pt 10 10) (pt 0 30)) = Some (pt 10 10)
   \<and> entities (handleMouseUp None ''r'' (drag_state RECT (pt 10 10) (pt 0 30)))
       = [no_entity\<lparr> e_id := Some ''r'', e_type := Some ''rect'',
            e_start := Some \<lparr> px = Fin 0, py = Fin 10 \<rparr>, e_width := Some (Fin 10),
            e_height := Some (Fin 20) \<rparr>]
   \<and> entities (handleMouseUp None ''r'' (drag_state RECT (pt 10 10) (pt 15 30))) = []"
proof -
  have t: "activeTool (drag_state RECT a b) = RECT" for a b by (simp add: drag_state_def)
  have d: "drawingStart (drag_state RECT a b) = Some a" for a b by (simp add: drag_state_def)
  have "entities (handleMouseUp None ''r'' (drag_state RECT (pt 10 10) (pt 0 30)))
       = [no_entity\<lparr> e_id := Some ''r'', e_type := Some ''rect'',
            e_start := Some \<lparr> px = Fin 0, py = Fin 10 \<rparr>, e_width := Some (Fin 10),
            e_height := Some (Fin 20) \<rparr>]"
    using rect_release [OF t [of "pt 10 10" "pt 0 30"] d [of "pt 10 10" "pt 0 30"], where reply = None and i = "''r''"]
    by (simp add: drag_state_def initial_state_def pt_def)
  moreover have "entities (handleMouseUp None ''r'' (drag_state RECT (pt 10 10) (pt 15 30))) = []"
    using rect_release [OF t [of "pt 10 10" "pt 15 30"] d [of "pt 10 10" "pt 15 30"], where reply = None and i = "''r''"]
    by (simp add: drag_state_def initial_state_def pt_def)
  ultimately show ?thesis using t d by simp
qed

subsection \<open>The action batch\<close>

lemma toLowerCase_create: "toLowerCase ''create'' = ''create''"
  by (simp add: toLowerCase_def)

lemma toLowerCase_rect: "toLowerCase ''rect'' = ''rect''"
  by (simp add: toLowerCase_def)

text \<open>
  C3, as stated, fails: applied to the empty list, the batch of one rect without
  \<^verbatim>\<open>height\<close> gives a list of one entity, the rect with no height.
\<close>

theorem rect_missing_height_counterexample:
  "apply_actions numbered_id [rect_missing_height] []
     = [no_entity\<lparr> e_id := Some ''n'', e_type := Some ''rect'', e_start := Some (pt 0 0),
                    e_width := Some (Fin 10) \<rparr>]"
  by (simp add: apply_actions_def apply_action_def rect_missing_height_def numbered_id_def
      toLowerCase_create toLowerCase_rect no_entity_def Let_def)

text \<open>
  C3, amended. The create action of a rect is checked for \<^verbatim>\<open>start\<close> and for a truthy
  \<^verbatim>\<open>width\<close> only: the rect without \<^verbatim>\<open>height\<close> is appended to any entity list, with
  a generated identifier and no height; the same action without \<^verbatim>\<open>width\<close> is skipped
  and leaves the list unchanged.
\<close>

theorem rect_create_validation:
  "apply_actions gen [rect_missing_height] es
     = es @ [no_entity\<lparr> e_id := Some (gen 0), e_type := Some ''rect'',
                         e_start := Some (pt 0 0), e_width := Some (Fin 10) \<rparr>]
   \<and> apply_actions gen [rect_missing_width] es = es"
  by (simp add: apply_actions_def apply_action_def rect_missing_height_def
      rect_missing_width_def toLowerCase_create toLowerCase_rect no_entity_def Let_def)

subsection \<open>The arc path\<close>


lemma round_double_zero [simp]: "round_double 0 = Fin 0"
  by (simp add: round_double_def)





















lemma jsnum_NaN_right [simp]: "a + NaN = NaN" "a * NaN = NaN" "a / NaN = NaN" "a - NaN = NaN"
  by (cases a; simp add: minus_jsnum_def)+

lemma jsnum_NaN_left [simp]: "NaN - a = NaN"
  by (simp add: minus_jsnum_def)








subsection \<open>Zoom to extents\<close>

lemma extents_entity_none: "no_extent_fields e \<Longrightarrow> extents_entity e b = b"
  by (simp add: no_extent_fields_def extents_entity_def)

lemma foldl_extents_none:
  "\<forall>e \<in> set es. no_extent_fields e \<Longrightarrow> foldl (\<lambda>acc e. extents_entity e acc) b es = b"
  by (induction es arbitrary: b) (simp_all add: extents_entity_none)

lemma extents_none: "\<forall>e \<in> set es. no_extent_fields e \<Longrightarrow> extents es = init_bounds"
  by (simp add: extents_def foldl_extents_none)

lemma math_min_cap: "\<not> Fin 5 < math_min [a, b, Fin 5]"
  by (cases a; cases b) (simp_all add: Let_def)

text \<open>
  C5, as stated, fails: for a drawing of one arc, whose bounds stay infinite, the view is
  not reset to the default view; it is left as it was.
\<close>

theorem zoomExtents_arc_only_counterexample:
  "zoomExtents arc_only canvas_rect panned_view = panned_view \<and> panned_view \<noteq> default_view"
  by (simp add: zoomExtents_def arc_only_def extents_def extents_entity_def new_arc_def
      no_entity_def init_bounds_def panned_view_def default_view_def)

text \<open>
  C5, amended. For the empty entity list the view is reset to the default view. For a list
  that is not empty and whose computed \<^verbatim>\<open>minX\<close> is not finite, as when no entity has a
  start, a centre, an x or polyline points, the view is left unchanged. For a list that is
  not empty and whose computed \<^verbatim>\<open>minX\<close> is finite, the zoom is
  \<^verbatim>\<open>Math.min(scaleX, scaleY, 5)\<close>, which is never greater than 5. Only \<^verbatim>\<open>minX\<close>
  is tested: the other three bounds may be infinite in the third case.
\<close>

theorem zoomExtents_cases:
  "(es = [] \<longrightarrow> zoomExtents es rect v = default_view)
   \<and> (es \<noteq> [] \<and> \<not> isFinite (minX (extents es)) \<longrightarrow> zoomExtents es rect v = v)
   \<and> (es \<noteq> [] \<and> (\<forall>e \<in> set es. no_extent_fields e) \<longrightarrow> zoomExtents es rect v = v)
   \<and> (es \<noteq> [] \<and> isFinite (minX (extents es)) \<longrightarrow>
        v_zoom (zoomExtents es rect v) = math_min [scaleX_of es rect, scaleY_of es rect, Fin 5]
        \<and> \<not> Fin 5 < v_zoom (zoomExtents es rect v))"
proof (intro conjI impI)
  assume "es = []"
  then show "zoomExtents es rect v = default_view" by (simp add: zoomExtents_def)
next
  assume "es \<noteq> [] \<and> \<not> isFinite (minX (extents es))"
  then show "zoomExtents es rect v = v" by (simp add: zoomExtents_def Let_def)
next
  assume "es \<noteq> [] \<and> (\<forall>e \<in> set es. no_extent_fields e)"
  then show "zoomExtents es rect v = v"
    by (simp add: zoomExtents_def Let_def extents_none init_bounds_def)
next
  assume h: "es \<noteq> [] \<and> isFinite (minX (extents es))"
  then show z: "v_zoom (zoomExtents es rect v)
      = math_min [scaleX_of es rect, scaleY_of es rect, Fin 5]"
    by (simp add: zoomExtents_def scaleX_of_def scaleY_of_def Let_def del: math_min.simps)
  show "\<not> Fin 5 < v_zoom (zoomExtents es rect v)"
    unfolding z by (rule math_min_cap)
qed


lemma extents_point_drawing:
  "extents point_drawing = \<lparr> minX = Fin 7, minY = Fin 9, maxX = Fin 7, maxY = Fin 9 \<rparr>"
  by (simp add: extents_def point_drawing_def extents_entity_def new_text_def no_entity_def
      init_bounds_def check_def pt_def)

theorem zoomExtents_cases_witness:
  "zoomExtents [] canvas_rect panned_view = default_view
   \<and> arc_only \<noteq> [] \<and> \<not> isFinite (minX (extents arc_only))
   \<and> zoomExtents arc_only canvas_rect panned_view = panned_view
   \<and> point_drawing \<noteq> [] \<and> isFinite (minX (extents point_drawing))
   \<and> v_zoom (zoomExtents point_drawing canvas_rect panned_view) = Fin 5"
proof -
  have a: "arc_only \<noteq> [] \<and> \<not> isFinite (minX (extents arc_only))"
    by (simp add: arc_only_def extents_def extents_entity_def new_arc_def no_entity_def
        init_bounds_def)
  have p: "point_drawing \<noteq> [] \<and> isFinite (minX (extents point_drawing))"
    by (simp add: extents_point_drawing) (simp add: point_drawing_def)
  have s: "scaleX_of point_drawing canvas_rect = PInf" "scaleY_of point_drawing canvas_rect = PInf"
    by (simp_all add: scaleX_of_def scaleY_of_def extents_point_drawing canvas_rect_def)
  show ?thesis
    using a p zoomExtents_cases [of "[]" canvas_rect panned_view]
      zoomExtents_cases [of arc_only canvas_rect panned_view]
      zoomExtents_cases [of point_drawing canvas_rect panned_view]
    by (simp add: s)
qed

text \<open>
  The test reads \<^verbatim>\<open>minX\<close> alone. A text with an x and no y has the bounds
  \<open>[5,5]\<close> by \<open>[+Infinity,-Infinity]\<close>; the view is not left unchanged, it becomes
  \<open>{x: 400, y: NaN, zoom: 0}\<close>.
\<close>

lemma extents_text_without_y:
  "extents text_without_y = \<lparr> minX = Fin 5, minY = PInf, maxX = Fin 5, maxY = NInf \<rparr>"
  by (simp add: extents_def text_without_y_def extents_entity_def no_entity_def
      init_bounds_def check_def)

lemma zoomExtents_text_without_y:
  "zoomExtents text_without_y canvas_rect panned_view
     = \<lparr> v_x = Fin 400, v_y = NaN, v_zoom = Fin 0 \<rparr>"
  by (simp add: zoomExtents_def extents_text_without_y canvas_rect_def minus_jsnum_def Let_def)
     (simp add: text_without_y_def)

subsection \<open>Block authoring\<close>

lemma block_basePoint_circle50: "block_basePoint [circle50 i] = pt 50 50"
  by (simp add: block_basePoint_def block_bounds_entity_def circle50_def new_circle_def
      no_entity_def init_bounds_def check_point_def check_def pt_def Let_def)

lemma normalize_circle50:
  "normalize_entity (pt 50 50) (circle50 i)
     = Inr (no_entity\<lparr> e_type := Some ''circle'', e_center := Some (pt 0 0),
                        e_radius := Some (Fin 20) \<rparr>)"
  by (simp add: normalize_entity_def circle50_def new_circle_def no_entity_def
      shift_point_def pt_def Let_def)

lemma B1_not_prototype: "''B1'' \<notin> set prototype_keys"
  by (simp add: prototype_keys_def)

text \<open>
  C4. When the selection is the one circle of centre (50,50) and radius 20 and the name B1
  is free, \<^verbatim>\<open>createBlock\<close> stores under B1 the definition of base point (50,50) whose only
  entity is the circle of centre (0,0) and radius 20, without identifier and without
  selection flag, and the entity list becomes the entities that were not selected followed
  by one selected insert of B1 at (50,50). When nothing is selected, and when the name is
  that of a stored block, the state is returned as it was.
\<close>

theorem createBlock_scenario:
  "(filter is_selected (entities st)
      = [no_entity\<lparr> e_id := Some i, e_type := Some ''circle'', e_selected := Some True,
          e_center := Some \<lparr> px = Fin 50, py = Fin 50 \<rparr>, e_radius := Some (Fin 20) \<rparr>]
    \<and> blockDefs st ''B1'' = None \<longrightarrow>
      createBlock (Some ''B1'') newId st
        = Inr (st\<lparr> blockDefs := (blockDefs st)(''B1'' \<mapsto>
                     \<lparr> b_name = ''B1'',
                       b_entities = [no_entity\<lparr> e_type := Some ''circle'',
                                       e_center := Some \<lparr> px = Fin 0, py = Fin 0 \<rparr>,
                                       e_radius := Some (Fin 20) \<rparr>],
                       b_basePoint = \<lparr> px = Fin 50, py = Fin 50 \<rparr> \<rparr>),
                   entities := filter (\<lambda>e. \<not> is_selected e) (entities st)
                     @ [no_entity\<lparr> e_id := Some newId, e_type := Some ''insert'',
                          e_selected := Some True, e_blockName := Some ''B1'',
                          e_insertPoint := Some \<lparr> px = Fin 50, py = Fin 50 \<rparr>,
                          e_scale := Some (Fin 1), e_rotation := Some (Fin 0) \<rparr>] \<rparr>))
   \<and> (filter is_selected (entities st) = [] \<longrightarrow> createBlock reply newId st = Inr st)
   \<and> (blockDefs st name \<noteq> None \<longrightarrow> createBlock (Some name) newId st = Inr st)"
proof (intro conjI impI)
  assume "filter is_selected (entities st)
      = [no_entity\<lparr> e_id := Some i, e_type := Some ''circle'', e_selected := Some True,
          e_center := Some \<lparr> px = Fin 50, py = Fin 50 \<rparr>, e_radius := Some (Fin 20) \<rparr>]
    \<and> blockDefs st ''B1'' = None"
  then have "filter is_selected (entities st) = [circle50 i] \<and> blockDefs st ''B1'' = None"
    by (simp add: circle50_def pt_def)
  then show "createBlock (Some ''B1'') newId st
        = Inr (st\<lparr> blockDefs := (blockDefs st)(''B1'' \<mapsto>
                     \<lparr> b_name = ''B1'',
                       b_entities = [no_entity\<lparr> e_type := Some ''circle'',
                                       e_center := Some \<lparr> px = Fin 0, py = Fin 0 \<rparr>,
                                       e_radius := Some (Fin 20) \<rparr>],
                       b_basePoint = \<lparr> px = Fin 50, py = Fin 50 \<rparr> \<rparr>),
                   entities := filter (\<lambda>e. \<not> is_selected e) (entities st)
                     @ [no_entity\<lparr> e_id := Some newId, e_type := Some ''insert'',
                          e_selected := Some True, e_blockName := Some ''B1'',
                          e_insertPoint := Some \<lparr> px = Fin 50, py = Fin 50 \<rparr>,
                          e_scale := Some (Fin 1), e_rotation := Some (Fin 0) \<rparr>] \<rparr>)"
    by (simp add: createBlock_def block_lookup_truthy_def B1_not_prototype
        block_basePoint_circle50 normalize_circle50 Let_def)
       (simp add: new_insert_def pt_def no_entity_def)
next
  assume "filter is_selected (entities st) = []"
  then show "createBlock reply newId st = Inr st"
    by (simp add: createBlock_def)
next
  assume "blockDefs st name \<noteq> None"
  then show "createBlock (Some name) newId st = Inr st"
    by (simp add: createBlock_def block_lookup_truthy_def Let_def)
qed

lemma circle_state_selection:
  "filter is_selected (entities circle_state) = [circle50 ''c'']
   \<and> filter (\<lambda>e. \<not> is_selected e) (entities circle_state) = [new_door ''d'' (pt 1 2)]"
  by (simp add: circle_state_def initial_state_def is_selected_def circle50_def new_door_def
      no_entity_def)

theorem createBlock_scenario_witness:
  "filter is_selected (entities circle_state)
     = [no_entity\<lparr> e_id := Some ''c'', e_type := Some ''circle'', e_selected := Some True,
          e_center := Some \<lparr> px = Fin 50, py = Fin 50 \<rparr>, e_radius := Some (Fin 20) \<rparr>]
   \<and> blockDefs circle_state ''B1'' = None
   \<and> createBlock (Some ''B1'') ''k'' circle_state
       = Inr (circle_state\<lparr> blockDefs := [''B1'' \<mapsto> block_B1],
                entities := [new_door ''d'' (pt 1 2),
                  no_entity\<lparr> e_id := Some ''k'', e_type := Some ''insert'',
                    e_selected := Some True, e_blockName := Some ''B1'',
                    e_insertPoint := Some \<lparr> px = Fin 50, py = Fin 50 \<rparr>,
                    e_scale := Some (Fin 1), e_rotation := Some (Fin 0) \<rparr>] \<rparr>)
   \<and> filter is_selected (entities initial_state) = []
   \<and> createBlock (Some ''B1'') ''k'' initial_state = Inr initial_state
   \<and> blockDefs block_state ''B1'' \<noteq> None
   \<and> createBlock (Some ''B1'') ''k'' block_state = Inr block_state"
proof -
  have n: "blockDefs circle_state ''B1'' = None"
    by (simp add: circle_state_def initial_state_def)
  have e: "filter is_selected (entities initial_state) = []"
    by (simp add: initial_state_def)
  have b: "blockDefs block_state ''B1'' \<noteq> None"
    by (simp add: block_state_def)
  have m: "blockDefs circle_state = Map.empty"
    by (simp add: circle_state_def initial_state_def)
  show ?thesis
    using n e b circle_state_selection
      createBlock_scenario [of circle_state "''c''" "''k''" "Some ''B1''" "''B1''"]
      createBlock_scenario [of initial_state "''c''" "''k''" "Some ''B1''" "''B1''"]
      createBlock_scenario [of block_state "''c''" "''k''" "Some ''B1''" "''B1''"]
    by (simp add: block_B1_def m circle50_def pt_def)
qed

subsection \<open>Entity types by kind\<close>



lemma kind_of_update [simp]:
  "kind_of (e\<lparr> e_id := a1 \<rparr>) = kind_of e"
  "kind_of (e\<lparr> e_selected := a2 \<rparr>) = kind_of e"
  "kind_of (e\<lparr> e_start := a3 \<rparr>) = kind_of e"
  "kind_of (e\<lparr> e_end := a4 \<rparr>) = kind_of e"
  "kind_of (e\<lparr> e_center := a5 \<rparr>) = kind_of e"
  "kind_of (e\<lparr> e_x := a6 \<rparr>) = kind_of e"
  "kind_of (e\<lparr> e_y := a6 \<rparr>) = kind_of e"
  "kind_of (e\<lparr> e_points := a7 \<rparr>) = kind_of e"
  "kind_of (e\<lparr> e_rotation := a6 \<rparr>) = kind_of e"
  by (simp_all add: kind_of_def)




subsection \<open>Mirror\<close>

lemma fin_refl2 [simp]: "a - (a - (v - a) - a) = (v::real)"
  by simp





































subsection \<open>Rotate\<close>



lemma angle_exact: "cos_angle = cos (pi / 2) \<and> sin_angle = sin (pi / 2)"
  by (simp add: cos_angle_def sin_angle_def)



lemma rot_four [simp]:
  "rx cx cy (ry cx cy (rx cx cy (ry cx cy u))) = u"
  "ry cx cy (rx cx cy (ry cx cy (rx cx cy w))) = w"
  by (simp_all add: rx_def ry_def)









lemma good_bounds_fin: "good_bounds (fin_bounds x0 y0 x1 y1)"
  by (simp add: good_bounds_def fin_bounds_def)























end
